theory Spec2Isabelle
  imports Complex_Main
begin

section \<open>The iOS asset generator of capacitor-assets\<close>

text \<open>
  A shallow embedding of \<^verbatim>\<open>src/platforms/ios/index.ts\<close> (class \<^verbatim>\<open>IosAssetGenerator\<close>).
  Every function of the class is one definition below, under the name it has in the
  source. What the file imports from elsewhere (the template catalog, \<^verbatim>\<open>path.join\<close>,
  the \<^verbatim>\<open>sharp\<close> image library, the file system) is either a parameter collected in the
  record \<open>env\<close> or an explicit component of the state \<open>world\<close>.
\<close>

subsection \<open>JSON values as JavaScript sees them\<close>

text \<open>
  The value \<^verbatim>\<open>JSON.parse\<close> returns. An object is the list of its own properties in
  enumeration order (the order \<^verbatim>\<open>JSON.stringify\<close> writes them in); a number is the
  exact value of the double the parser produced.
\<close>

datatype json =
    JNull
  | JBool bool
  | JNum rat
  | JStr string
  | JArr "json list"
  | JObj "(string \<times> json) list"

text \<open>
  The exceptions the generator raises itself (\<^verbatim>\<open>BadProjectError\<close>, \<^verbatim>\<open>BadPipelineError\<close>)
  and the ones that reach its caller from the platform: a rejected \<^verbatim>\<open>readFile\<close>, the
  \<^verbatim>\<open>SyntaxError\<close> of \<^verbatim>\<open>JSON.parse\<close>, the \<^verbatim>\<open>TypeError\<close> of a property read on
  \<^verbatim>\<open>null\<close>/\<^verbatim>\<open>undefined\<close> or of a call of something that is no function, and a
  rejection by \<^verbatim>\<open>sharp\<close>.
\<close>

datatype error =
    BadProjectError string
  | BadPipelineError string
  | ReadFileError
  | SyntaxError
  | TypeError
  | SharpError

text \<open>
  \<^verbatim>\<open>v.k\<close> for a parsed value \<open>v\<close>: \<open>None\<close> is \<^verbatim>\<open>undefined\<close>. Reading a property
  of \<^verbatim>\<open>null\<close> throws. The generator only reads the keys \<^verbatim>\<open>images\<close> and \<^verbatim>\<open>filename\<close>,
  which no array, string, number or boolean has.
\<close>

fun get_prop :: "json \<Rightarrow> string \<Rightarrow> error + json option" where
  "get_prop JNull k = Inl TypeError"
| "get_prop (JObj kvs) k = Inr (map_of kvs k)"
| "get_prop (JBool b) k = Inr None"
| "get_prop (JNum n) k = Inr None"
| "get_prop (JStr s) k = Inr None"
| "get_prop (JArr xs) k = Inr None"

text \<open>\<^verbatim>\<open>!!v\<close>: JavaScript's truthiness of a parsed value or \<^verbatim>\<open>undefined\<close>.\<close>

fun truthy :: "json option \<Rightarrow> bool" where
  "truthy None = False"
| "truthy (Some JNull) = False"
| "truthy (Some (JBool b)) = b"
| "truthy (Some (JNum n)) = (n \<noteq> 0)"
| "truthy (Some (JStr s)) = (s \<noteq> [])"
| "truthy (Some (JArr xs)) = True"
| "truthy (Some (JObj kvs)) = True"

text \<open>
  \<^verbatim>\<open>images.filter((i) => !!i.filename)\<close>: the callback throws on a \<^verbatim>\<open>null\<close> element,
  and then so does the whole call.
\<close>

fun filter_filename :: "json list \<Rightarrow> error + json list" where
  "filter_filename [] = Inr []"
| "filter_filename (i # rest) =
     (case get_prop i ''filename'' of
        Inl e \<Rightarrow> Inl e
      | Inr f \<Rightarrow>
          (case filter_filename rest of
             Inl e \<Rightarrow> Inl e
           | Inr kept \<Rightarrow> Inr (if truthy f then i # kept else kept)))"

text \<open>
  \<^verbatim>\<open>obj.k = v\<close> on a parsed object: an existing property keeps its place, a new one
  goes last.
\<close>

fun set_prop :: "(string \<times> json) list \<Rightarrow> string \<Rightarrow> json \<Rightarrow> (string \<times> json) list" where
  "set_prop [] k v = [(k, v)]"
| "set_prop ((k', v') # kvs) k v =
     (if k' = k then (k, v) # kvs else (k', v') # set_prop kvs k v)"

text \<open>
  The digits a template literal \<^verbatim>\<open>${n}\<close> prints for a whole number \<open>n\<close>
  (below \<open>10\<^sup>2\<^sup>1\<close> in size, where JavaScript switches to exponent notation).
\<close>

definition digit_char :: "nat \<Rightarrow> char" where
  "digit_char d = ''0123456789'' ! d"

fun digits10 :: "nat \<Rightarrow> string" where
  "digits10 n = (if n < 10 then [digit_char n] else digits10 (n div 10) @ [digit_char (n mod 10)])"

declare digits10.simps [simp del]

definition number_to_string :: "int \<Rightarrow> string" where
  "number_to_string n = (if n < 0 then ''-'' @ digits10 (nat (- n)) else digits10 (nat n))"

subsection \<open>Data model\<close>

text \<open>
  Modelled from the spec: the enum \<^verbatim>\<open>AssetKind\<close>, declared in \<^verbatim>\<open>definitions.ts\<close>
  and not in the module verified here. The eight kinds the generator names, and
  \<open>OtherKind\<close> for every further member of the enum (its string value).
\<close>

datatype AssetKind =
    Logo
  | LogoDark
  | Icon
  | NotificationIcon
  | SettingsIcon
  | SpotlightIcon
  | Splash
  | SplashDark
  | OtherKind string

text \<open>
  Modelled from the spec: \<^verbatim>\<open>IosOutputAssetTemplate\<close> (\<^verbatim>\<open>definitions.ts\<close>), with the
  fields the generator reads. Pixel sizes and the scale factor are whole numbers;
  \<open>None\<close> is an absent optional field.
\<close>

record ios_template =
  kind :: AssetKind
  name :: string
  width :: "int option"
  height :: "int option"
  scale :: "int option"

text \<open>
  Modelled from the spec: \<^verbatim>\<open>InputAsset\<close> (\<^verbatim>\<open>input-asset.ts\<close>). \<open>pipeline\<close> is what
  the method \<^verbatim>\<open>pipeline()\<close> returns: the handle of the transform capability bound to the
  file, or nothing when the image has not been opened.
\<close>

type_synonym handle = nat

record input_asset =
  asset_path :: string
  asset_kind :: AssetKind
  asset_width :: "int option"
  asset_height :: "int option"
  pipeline :: "handle option"

text \<open>
  Modelled from the spec: \<^verbatim>\<open>Project\<close> (\<^verbatim>\<open>project.ts\<close>), reduced to
  \<^verbatim>\<open>project.config.ios?.path\<close>: the platform entry may be absent, and so may its path.
\<close>

record ios_config =
  path :: "string option"

record project =
  config_ios :: "ios_config option"

text \<open>
  Modelled from the spec: the metadata \<^verbatim>\<open>toFile\<close> resolves to (byte size and encoded
  dimensions), and \<^verbatim>\<open>OutputAsset\<close> (\<^verbatim>\<open>output-asset.ts\<close>), whose constructor stores its
  five arguments; the two dictionaries are association lists.
\<close>

record output_info =
  info_size :: nat
  info_width :: nat
  info_height :: nat

record output_asset =
  template :: ios_template
  oa_asset :: input_asset
  oa_project :: project
  destFilenames :: "(string \<times> string) list"
  outputInfoMap :: "(string \<times> output_info) list"

text \<open>
  Modelled from the spec: \<^verbatim>\<open>AssetGeneratorOptions\<close> (\<^verbatim>\<open>asset-generator.ts\<close>), the three
  options the generator consults.
\<close>

record generator_options =
  logoSplashScale :: "rat option"
  splashBackgroundColor :: "string option"
  splashBackgroundColorDark :: "string option"

subsection \<open>The transform capability and the file system\<close>

text \<open>
  The calls the generator makes on \<^verbatim>\<open>sharp\<close>, each with all its arguments:
  \<^item> \<open>Create\<close>: \<^verbatim>\<open>sharp({create: {width, height, channels, background}})\<close>;
  \<^item> \<open>OpenResizeToBuffer p w\<close>: \<^verbatim>\<open>sharp(p).resize(w).toBuffer()\<close>, which opens and
    decodes the file at \<open>p\<close> through a new instance;
  \<^item> \<open>ResizePngToFile h w ht dest\<close>: \<^verbatim>\<open>h.resize(w, ht).png().toFile(dest)\<close> on the
    asset's own handle \<open>h\<close>;
  \<^item> \<open>CompositePngToFile c b dest\<close>:
    \<^verbatim>\<open>c.composite([{input: b, gravity: center}]).png().toFile(dest)\<close>.
\<close>

record canvas =
  create_width :: int
  create_height :: int
  channels :: nat
  background :: string

datatype buffer = Resized string int

datatype sharp_call =
    Create canvas
  | OpenResizeToBuffer string int
  | ResizePngToFile handle "int option" "int option" string
  | CompositePngToFile canvas buffer string

fun written_file :: "sharp_call \<Rightarrow> string option" where
  "written_file (Create c) = None"
| "written_file (OpenResizeToBuffer p w) = None"
| "written_file (ResizePngToFile h w ht dest) = Some dest"
| "written_file (CompositePngToFile c b dest) = Some dest"

text \<open>
  A file holds the JSON value its text parses to, an image (named by the call that
  wrote it), or something \<^verbatim>\<open>JSON.parse\<close> rejects.
\<close>

datatype file_content = Json json | Image sharp_call | Unparseable

datatype effect = Sharp sharp_call | ReadFile string | WriteFile string json

text \<open>
  The state: the files by path, and the trace of calls made on the platform so far, in
  the order they were issued.
\<close>

record world =
  files :: "string \<Rightarrow> file_content option"
  trace :: "effect list"

text \<open>
  Everything else the module takes from its surroundings:
  \<^item> \<open>options\<close> is \<^verbatim>\<open>this.options\<close>;
  \<^item> \<open>IosAssetTemplates\<close> is \<^verbatim>\<open>Object.values(IosAssetTemplates)\<close>, the catalog of
    \<^verbatim>\<open>./assets\<close> in enumeration order, and the two splash templates are the ones the
    module imports from it by name;
  \<^item> \<open>join\<close> is \<^verbatim>\<open>path.join\<close>;
  \<^item> \<open>number_times\<close> is the multiplication of two finite doubles, each given by its
    exact value and the product rounded as the machine rounds it;
  \<^item> \<open>sharp_ok\<close> says whether \<^verbatim>\<open>sharp\<close> carries a call out or rejects it, and
    \<open>sharp_info\<close> is the metadata a successful \<^verbatim>\<open>toFile\<close> resolves to.
\<close>

record env =
  options :: generator_options
  IosAssetTemplates :: "ios_template list"
  IOS_2X_UNIVERSAL_ANYANY_SPLASH :: ios_template
  IOS_2X_UNIVERSAL_ANYANY_SPLASH_DARK :: ios_template
  join :: "string list \<Rightarrow> string"
  number_times :: "rat \<Rightarrow> rat \<Rightarrow> rat"
  sharp_ok :: "sharp_call \<Rightarrow> bool"
  sharp_info :: "sharp_call \<Rightarrow> output_info"

definition IOS_APP_ICON_SET_NAME :: string where
  "IOS_APP_ICON_SET_NAME = ''AppIcon''"

definition IOS_APP_ICON_SET_PATH :: string where
  "IOS_APP_ICON_SET_PATH = ''App/Assets.xcassets/'' @ IOS_APP_ICON_SET_NAME @ ''.appiconset''"

definition IOS_SPLASH_IMAGE_SET_NAME :: string where
  "IOS_SPLASH_IMAGE_SET_NAME = ''Splash''"

definition IOS_SPLASH_IMAGE_SET_PATH :: string where
  "IOS_SPLASH_IMAGE_SET_PATH = ''App/Assets.xcassets/'' @ IOS_SPLASH_IMAGE_SET_NAME @ ''.imageset''"

subsection \<open>Asynchronous functions as state transformers\<close>

text \<open>
  An \<^verbatim>\<open>async\<close> function takes the state and returns its outcome, \<open>Inl\<close> a thrown
  error or \<open>Inr\<close> the value, with the state it leaves behind: what was written before
  a throw stays written.
\<close>

type_synonym 'a io = "world \<Rightarrow> (error + 'a) \<times> world"

definition ret :: "'a \<Rightarrow> 'a io" where
  "ret x w = (Inr x, w)"

definition throw :: "error \<Rightarrow> 'a io" where
  "throw e w = (Inl e, w)"

definition bind :: "'a io \<Rightarrow> ('a \<Rightarrow> 'b io) \<Rightarrow> 'b io" where
  "bind m f w = (case m w of (Inl e, w') \<Rightarrow> (Inl e, w') | (Inr x, w') \<Rightarrow> f x w')"

definition lift :: "error + 'a \<Rightarrow> 'a io" where
  "lift r w = (r, w)"

definition record_effect :: "effect \<Rightarrow> world \<Rightarrow> world" where
  "record_effect e w = w\<lparr>trace := trace w @ [e]\<rparr>"

text \<open>
  One call on \<^verbatim>\<open>sharp\<close>: it is recorded, and when it is carried out and has a
  destination, the file is there afterwards.
\<close>

definition sharp :: "env \<Rightarrow> sharp_call \<Rightarrow> output_info io" where
  "sharp env c w =
     (let w1 = record_effect (Sharp c) w in
      if sharp_ok env c then
        (Inr (sharp_info env c),
         (case written_file c of
            None \<Rightarrow> w1
          | Some dest \<Rightarrow> w1\<lparr>files := (files w1)(dest \<mapsto> Image c)\<rparr>))
      else (Inl SharpError, w1))"

definition readFile :: "string \<Rightarrow> file_content io" where
  "readFile p w =
     (let w1 = record_effect (ReadFile p) w in
      case files w p of None \<Rightarrow> (Inl ReadFileError, w1) | Some c \<Rightarrow> (Inr c, w1))"

text \<open>
  \<^verbatim>\<open>writeFile(p, JSON.stringify(v, null, 2))\<close>: afterwards the file holds text that
  parses to \<open>v\<close>. Writes by \<^verbatim>\<open>writeFile\<close> are taken to succeed.
\<close>

definition writeFile :: "string \<Rightarrow> json \<Rightarrow> unit io" where
  "writeFile p v w = (Inr (), (record_effect (WriteFile p v) w)\<lparr>files := (files w)(p \<mapsto> Json v)\<rparr>)"

definition JSON_parse :: "file_content \<Rightarrow> error + json" where
  "JSON_parse c = (case c of Json v \<Rightarrow> Inr v | Image i \<Rightarrow> Inl SyntaxError | Unparseable \<Rightarrow> Inl SyntaxError)"

text \<open>
  \<^verbatim>\<open>project.config.ios!.path!\<close>: the assertions are erased at run time, so an absent
  platform entry throws at the property read, and an absent path is \<^verbatim>\<open>undefined\<close>
  until \<^verbatim>\<open>join\<close> is handed it and throws.
\<close>

definition ios_path :: "project \<Rightarrow> error + string option" where
  "ios_path p = (case config_ios p of None \<Rightarrow> Inl TypeError | Some c \<Rightarrow> Inr (path c))"

definition join3 :: "env \<Rightarrow> string option \<Rightarrow> string \<Rightarrow> string \<Rightarrow> error + string" where
  "join3 env iosDir a b =
     (case iosDir of None \<Rightarrow> Inl TypeError | Some d \<Rightarrow> Inr (join env [d, a, b]))"

subsection \<open>The manifest merger\<close>

text \<open>The entry \<^verbatim>\<open>updateContentsJsonDark\<close> pushes for a template.\<close>

definition dark_entry :: "ios_template \<Rightarrow> json" where
  "dark_entry t =
     JObj [(''appearances'',
              JArr [JObj [(''appearance'', JStr ''luminosity''), (''value'', JStr ''dark'')]]),
           (''idiom'', JStr ''universal''),
           (''scale'', JStr (number_to_string (case scale t of None \<Rightarrow> 1 | Some s \<Rightarrow> s) @ ''x'')),
           (''filename'', JStr (name t))]"

text \<open>
  Lines 249 to 264 on the parsed value: \<^verbatim>\<open>parsed.images\<close> throws on \<^verbatim>\<open>null\<close>;
  \<^verbatim>\<open>.filter\<close> is a function only on an array; the assignment stores the new list
  under \<^verbatim>\<open>images\<close> of the same object.
\<close>

definition merge_dark :: "ios_template \<Rightarrow> json \<Rightarrow> error + json" where
  "merge_dark t parsed =
     (case get_prop parsed ''images'' of
        Inl e \<Rightarrow> Inl e
      | Inr (Some (JArr imgs)) \<Rightarrow>
          (case filter_filename imgs of
             Inl e \<Rightarrow> Inl e
           | Inr withoutMissing \<Rightarrow>
               (case parsed of
                  JObj kvs \<Rightarrow> Inr (JObj (set_prop kvs ''images'' (JArr (withoutMissing @ [dark_entry t]))))
                | _ \<Rightarrow> Inl TypeError))
      | Inr _ \<Rightarrow> Inl TypeError)"

definition updateContentsJsonDark :: "env \<Rightarrow> output_asset \<Rightarrow> project \<Rightarrow> unit io" where
  "updateContentsJsonDark env generated proj =
     bind (lift (ios_path proj)) (\<lambda>iosDir.
     bind (lift (join3 env iosDir IOS_SPLASH_IMAGE_SET_PATH ''Contents.json'')) (\<lambda>contentsJsonPath.
     bind (readFile contentsJsonPath) (\<lambda>json.
     bind (lift (JSON_parse json)) (\<lambda>parsed.
     bind (lift (merge_dark (template generated) parsed)) (\<lambda>merged.
     writeFile contentsJsonPath merged)))))"

subsection \<open>The generator\<close>

text \<open>
  \<^verbatim>\<open>new OutputAsset(t, asset, project, {[key]: dest}, {[key]: info})\<close>, as every
  function below builds it.
\<close>

definition OutputAsset ::
  "ios_template \<Rightarrow> input_asset \<Rightarrow> project \<Rightarrow> string \<Rightarrow> string \<Rightarrow> output_info \<Rightarrow> output_asset" where
  "OutputAsset t asset proj key dest info =
     \<lparr>template = t, oa_asset = asset, oa_project = proj,
      destFilenames = [(key, dest)], outputInfoMap = [(key, info)]\<rparr>"

text \<open>
  \<^verbatim>\<open>Promise.all\<close> over callbacks that are all started before any of them is awaited:
  every one of them runs, and the whole fails when one of them does. The callbacks of
  one batch can only fail alike (all at \<^verbatim>\<open>join\<close>) or at \<^verbatim>\<open>sharp\<close>, so which failure
  is reported does not depend on the order in which they settle.
\<close>

fun promise_all :: "'a io list \<Rightarrow> 'a list io" where
  "promise_all [] w = (Inr [], w)"
| "promise_all (m # ms) w =
     (case m w of (r, w1) \<Rightarrow>
        (case promise_all ms w1 of (rs, w2) \<Rightarrow>
           ((case r of
               Inl e \<Rightarrow> Inl e
             | Inr x \<Rightarrow> (case rs of Inl e \<Rightarrow> Inl e | Inr xs \<Rightarrow> Inr (x # xs))),
            w2)))"

text \<open>The callback of \<^verbatim>\<open>icons.map\<close> in \<^verbatim>\<open>_generateIcons\<close> (lines 155 to 171).\<close>

definition generate_icon ::
  "env \<Rightarrow> input_asset \<Rightarrow> project \<Rightarrow> handle \<Rightarrow> string option \<Rightarrow> ios_template \<Rightarrow> output_asset io" where
  "generate_icon env asset proj pipe iosDir icon =
     bind (lift (join3 env iosDir IOS_APP_ICON_SET_PATH (name icon))) (\<lambda>dest.
     bind (sharp env (ResizePngToFile pipe (width icon) (height icon) dest)) (\<lambda>outputInfo.
     ret (OutputAsset icon asset proj (name icon) dest outputInfo)))"

text \<open>\<^verbatim>\<open>_generateIcons\<close> (an identifier cannot start with an underscore here).\<close>

definition private_generateIcons ::
  "env \<Rightarrow> input_asset \<Rightarrow> project \<Rightarrow> ios_template list \<Rightarrow> output_asset list io" where
  "private_generateIcons env asset proj icons =
     (case pipeline asset of
        None \<Rightarrow> throw (BadPipelineError ''Sharp instance not created'')
      | Some pipe \<Rightarrow>
          bind (lift (ios_path proj)) (\<lambda>iosDir.
          promise_all (map (generate_icon env asset proj pipe iosDir) icons)))"

text \<open>
  The kinds \<^verbatim>\<open>generateIconsForLogo\<close> looks for with \<^verbatim>\<open>find\<close>. The member found is a
  value of the enum, and the filter keeps the template when it is true: the enum's
  values are taken to be non-empty strings, as the specification's reading of this
  filter (all templates of the four icon kinds) has it.
\<close>

definition logo_icon_kinds :: "AssetKind list" where
  "logo_icon_kinds = [Icon, NotificationIcon, SettingsIcon, SpotlightIcon]"

definition generateIconsForLogo :: "env \<Rightarrow> input_asset \<Rightarrow> project \<Rightarrow> output_asset list io" where
  "generateIconsForLogo env asset proj =
     private_generateIcons env asset proj
       (filter (\<lambda>a. find (\<lambda>i. i = kind a) logo_icon_kinds \<noteq> None) (IosAssetTemplates env))"

definition generateIcons :: "env \<Rightarrow> input_asset \<Rightarrow> project \<Rightarrow> output_asset list io" where
  "generateIcons env asset proj =
     private_generateIcons env asset proj (filter (\<lambda>a. kind a = Icon) (IosAssetTemplates env))"

definition generateNotificationIcons :: "env \<Rightarrow> input_asset \<Rightarrow> project \<Rightarrow> output_asset list io" where
  "generateNotificationIcons env asset proj =
     private_generateIcons env asset proj
       (filter (\<lambda>a. kind a = NotificationIcon) (IosAssetTemplates env))"

definition generateSettingsIcons :: "env \<Rightarrow> input_asset \<Rightarrow> project \<Rightarrow> output_asset list io" where
  "generateSettingsIcons env asset proj =
     private_generateIcons env asset proj
       (filter (\<lambda>a. kind a = SettingsIcon) (IosAssetTemplates env))"

definition generateSpotlightIcons :: "env \<Rightarrow> input_asset \<Rightarrow> project \<Rightarrow> output_asset list io" where
  "generateSpotlightIcons env asset proj =
     private_generateIcons env asset proj
       (filter (\<lambda>a. kind a = SpotlightIcon) (IosAssetTemplates env))"

text \<open>
  The double written \<^verbatim>\<open>0.2\<close> in the source: \<open>3602879701896397 / 2\<^sup>5\<^sup>4\<close>, the double
  nearest to one fifth.
\<close>

definition default_logoSplashScale :: rat where
  "default_logoSplashScale = 3602879701896397 / 18014398509481984"

text \<open>Lines 67 and 68: \<^verbatim>\<open>Math.floor((asset.width ?? 0) * (logoSplashScale ?? 0.2))\<close>.\<close>

definition targetWidth :: "env \<Rightarrow> input_asset \<Rightarrow> int" where
  "targetWidth env asset =
     (let targetLogoWidthPercent =
            (case logoSplashScale (options env) of None \<Rightarrow> default_logoSplashScale | Some s \<Rightarrow> s)
      in \<lfloor>number_times env (of_int (case asset_width asset of None \<Rightarrow> 0 | Some w \<Rightarrow> w))
                          targetLogoWidthPercent\<rfloor>)"

text \<open>
  Lines 72 to 100 and lines 106 to 133 of \<^verbatim>\<open>generateFromLogo\<close> are one block written
  twice, once with the light and once with the dark template and background: the
  destination is joined, the canvas created, the source opened from \<^verbatim>\<open>asset.path\<close> and
  resized into a buffer, the buffer composited and written, the output built with the
  destination as its key.
\<close>

definition composite_splash ::
  "env \<Rightarrow> input_asset \<Rightarrow> project \<Rightarrow> string option \<Rightarrow> int \<Rightarrow> ios_template \<Rightarrow> string \<Rightarrow> output_asset io" where
  "composite_splash env asset proj iosDir tw splash bg =
     bind (lift (join3 env iosDir IOS_SPLASH_IMAGE_SET_PATH (name splash))) (\<lambda>dest.
     let cv = \<lparr>create_width = (case width splash of None \<Rightarrow> 0 | Some n \<Rightarrow> n),
               create_height = (case height splash of None \<Rightarrow> 0 | Some n \<Rightarrow> n),
               channels = 4, background = bg\<rparr> in
     bind (sharp env (Create cv)) (\<lambda>created.
     bind (sharp env (OpenResizeToBuffer (asset_path asset) tw)) (\<lambda>resized.
     bind (sharp env (CompositePngToFile cv (Resized (asset_path asset) tw) dest)) (\<lambda>outputInfo.
     ret (OutputAsset splash asset proj dest dest outputInfo)))))"

definition lightSplash :: "env \<Rightarrow> input_asset \<Rightarrow> project \<Rightarrow> string option \<Rightarrow> output_asset io" where
  "lightSplash env asset proj iosDir =
     composite_splash env asset proj iosDir (targetWidth env asset)
       (IOS_2X_UNIVERSAL_ANYANY_SPLASH env)
       (case splashBackgroundColor (options env) of None \<Rightarrow> ''#ffffff'' | Some c \<Rightarrow> c)"

definition darkSplash :: "env \<Rightarrow> input_asset \<Rightarrow> project \<Rightarrow> string option \<Rightarrow> output_asset io" where
  "darkSplash env asset proj iosDir =
     composite_splash env asset proj iosDir (targetWidth env asset)
       (IOS_2X_UNIVERSAL_ANYANY_SPLASH_DARK env)
       (case splashBackgroundColorDark (options env) of None \<Rightarrow> ''#111111'' | Some c \<Rightarrow> c)"

definition generateFromLogo :: "env \<Rightarrow> input_asset \<Rightarrow> project \<Rightarrow> output_asset list io" where
  "generateFromLogo env asset proj =
     (case pipeline asset of
        None \<Rightarrow> throw (BadPipelineError ''Sharp instance not created'')
      | Some pipe \<Rightarrow>
          bind (lift (ios_path proj)) (\<lambda>iosDir.
          bind (generateIconsForLogo env asset proj) (\<lambda>logos.
          bind (if asset_kind asset = Logo
                then bind (lightSplash env asset proj iosDir) (\<lambda>lightSplashOutput.
                     ret [lightSplashOutput])
                else ret []) (\<lambda>generated.
          bind (darkSplash env asset proj iosDir) (\<lambda>darkSplashOutput.
          bind (updateContentsJsonDark env darkSplashOutput proj) (\<lambda>registered.
          ret (logos @ generated @ [darkSplashOutput])))))))"

definition generateSplashes :: "env \<Rightarrow> input_asset \<Rightarrow> project \<Rightarrow> output_asset list io" where
  "generateSplashes env asset proj =
     (case pipeline asset of
        None \<Rightarrow> throw (BadPipelineError ''Sharp instance not created'')
      | Some pipe \<Rightarrow>
          (let assetMeta = (if asset_kind asset = Splash then IOS_2X_UNIVERSAL_ANYANY_SPLASH env
                            else IOS_2X_UNIVERSAL_ANYANY_SPLASH_DARK env) in
           bind (lift (ios_path proj)) (\<lambda>iosDir.
           bind (lift (join3 env iosDir IOS_SPLASH_IMAGE_SET_PATH (name assetMeta))) (\<lambda>dest.
           bind (sharp env (ResizePngToFile pipe (width assetMeta) (height assetMeta) dest)) (\<lambda>outputInfo.
           let generated = OutputAsset assetMeta asset proj (name assetMeta) dest outputInfo in
           bind (if asset_kind asset = SplashDark
                 then updateContentsJsonDark env generated proj
                 else ret ()) (\<lambda>registered.
           ret [generated]))))))"

text \<open>
  \<^verbatim>\<open>generate\<close>: the guard on \<^verbatim>\<open>project.config.ios?.path\<close> (absent and empty both
  count as false), then the \<^verbatim>\<open>switch\<close> with its cases in the order of the source,
  the second, unreachable \<^verbatim>\<open>case AssetKind.Icon\<close> included.
\<close>

definition generate :: "env \<Rightarrow> input_asset \<Rightarrow> project \<Rightarrow> output_asset list io" where
  "generate env asset proj =
     (let iosDir = (case config_ios proj of None \<Rightarrow> None | Some c \<Rightarrow> path c) in
      if iosDir = None \<or> iosDir = Some [] then throw (BadProjectError ''No ios project found'')
      else if asset_kind asset = Logo \<or> asset_kind asset = LogoDark then generateFromLogo env asset proj
      else if asset_kind asset = Icon then generateIcons env asset proj
      else if asset_kind asset = NotificationIcon then generateNotificationIcons env asset proj
      else if asset_kind asset = Icon then ret []
      else if asset_kind asset = SettingsIcon then generateSettingsIcons env asset proj
      else if asset_kind asset = SpotlightIcon then generateSpotlightIcons env asset proj
      else if asset_kind asset = Splash \<or> asset_kind asset = SplashDark then generateSplashes env asset proj
      else ret [])"

subsection \<open>Notions the properties are stated with\<close>

text \<open>What the callback of \<^verbatim>\<open>filter\<close> answers for an entry it does not throw on.\<close>

definition has_filename :: "json \<Rightarrow> bool" where
  "has_filename i = (case get_prop i ''filename'' of Inl e \<Rightarrow> False | Inr f \<Rightarrow> truthy f)"

text \<open>
  The specification's two classes of manifest entries: a malformed entry is a record
  whose \<^verbatim>\<open>filename\<close> is absent or the empty string, a valid one a record whose
  \<^verbatim>\<open>filename\<close> is a non-empty string.
\<close>

definition malformed_entry :: "json \<Rightarrow> bool" where
  "malformed_entry i =
     (case i of
        JObj kvs \<Rightarrow> (case map_of kvs ''filename'' of None \<Rightarrow> True | Some (JStr s) \<Rightarrow> s = [] | Some other \<Rightarrow> False)
      | other \<Rightarrow> False)"

definition valid_entry :: "json \<Rightarrow> bool" where
  "valid_entry i =
     (case i of
        JObj kvs \<Rightarrow> (case map_of kvs ''filename'' of Some (JStr s) \<Rightarrow> s \<noteq> [] | other \<Rightarrow> False)
      | other \<Rightarrow> False)"

definition manifest_path :: "env \<Rightarrow> string \<Rightarrow> string" where
  "manifest_path env dir = join env [dir, IOS_SPLASH_IMAGE_SET_PATH, ''Contents.json'']"

text \<open>The \<^verbatim>\<open>images\<close> list of the manifest stored at a path, when there is one.\<close>

definition manifest_images :: "world \<Rightarrow> string \<Rightarrow> json list option" where
  "manifest_images w p =
     (case files w p of
        Some (Json (JObj kvs)) \<Rightarrow> (case map_of kvs ''images'' of Some (JArr imgs) \<Rightarrow> Some imgs | other \<Rightarrow> None)
      | other \<Rightarrow> None)"


text \<open>The state after \<^verbatim>\<open>sharp\<close> has carried a call out.\<close>

definition performed :: "sharp_call \<Rightarrow> world \<Rightarrow> world" where
  "performed c w =
     (case written_file c of
        None \<Rightarrow> record_effect (Sharp c) w
      | Some dest \<Rightarrow> (record_effect (Sharp c) w)\<lparr>files := (files w)(dest \<mapsto> Image c)\<rparr>)"

text \<open>The call one icon of a batch makes and the output it yields, for a project at \<open>dir\<close>.\<close>

definition icon_call :: "env \<Rightarrow> handle \<Rightarrow> string \<Rightarrow> ios_template \<Rightarrow> sharp_call" where
  "icon_call env pipe dir icon =
     ResizePngToFile pipe (width icon) (height icon) (join env [dir, IOS_APP_ICON_SET_PATH, name icon])"

definition icon_output ::
  "env \<Rightarrow> input_asset \<Rightarrow> project \<Rightarrow> handle \<Rightarrow> string \<Rightarrow> ios_template \<Rightarrow> output_asset" where
  "icon_output env asset proj pipe dir icon =
     OutputAsset icon asset proj (name icon) (join env [dir, IOS_APP_ICON_SET_PATH, name icon])
       (sharp_info env (icon_call env pipe dir icon))"

text \<open>The events a run adds to the trace.\<close>

definition new_events :: "world \<Rightarrow> world \<Rightarrow> effect list" where
  "new_events w w' = drop (length (trace w)) (trace w')"

text \<open>An action only ever adds events of one sort to the trace, however it ends.\<close>

definition emits :: "(effect \<Rightarrow> bool) \<Rightarrow> 'a io \<Rightarrow> bool" where
  "emits P m = (\<forall>w. \<exists>new. trace (snd (m w)) = trace w @ new \<and> list_all P new)"

text \<open>The canvas, the destination, the calls and the output of one splash composition.\<close>

definition splash_canvas :: "ios_template \<Rightarrow> string \<Rightarrow> canvas" where
  "splash_canvas t bg =
     \<lparr>create_width = (case width t of None \<Rightarrow> 0 | Some n \<Rightarrow> n),
      create_height = (case height t of None \<Rightarrow> 0 | Some n \<Rightarrow> n),
      channels = 4, background = bg\<rparr>"

definition splash_dest :: "env \<Rightarrow> string \<Rightarrow> ios_template \<Rightarrow> string" where
  "splash_dest env dir t = join env [dir, IOS_SPLASH_IMAGE_SET_PATH, name t]"

definition composite_call :: "env \<Rightarrow> input_asset \<Rightarrow> string \<Rightarrow> ios_template \<Rightarrow> string \<Rightarrow> sharp_call" where
  "composite_call env asset dir t bg =
     CompositePngToFile (splash_canvas t bg) (Resized (asset_path asset) (targetWidth env asset))
       (splash_dest env dir t)"

definition splash_calls :: "env \<Rightarrow> input_asset \<Rightarrow> string \<Rightarrow> ios_template \<Rightarrow> string \<Rightarrow> sharp_call list" where
  "splash_calls env asset dir t bg =
     [Create (splash_canvas t bg),
      OpenResizeToBuffer (asset_path asset) (targetWidth env asset),
      composite_call env asset dir t bg]"

definition splash_output ::
  "env \<Rightarrow> input_asset \<Rightarrow> project \<Rightarrow> string \<Rightarrow> ios_template \<Rightarrow> string \<Rightarrow> output_asset" where
  "splash_output env asset proj dir t bg =
     OutputAsset t asset proj (splash_dest env dir t) (splash_dest env dir t)
       (sharp_info env (composite_call env asset dir t bg))"

definition light_background :: "env \<Rightarrow> string" where
  "light_background env = (case splashBackgroundColor (options env) of None \<Rightarrow> ''#ffffff'' | Some c \<Rightarrow> c)"

definition dark_background :: "env \<Rightarrow> string" where
  "dark_background env = (case splashBackgroundColorDark (options env) of None \<Rightarrow> ''#111111'' | Some c \<Rightarrow> c)"

text \<open>The templates \<^verbatim>\<open>generateIconsForLogo\<close> selects.\<close>

definition logo_icons :: "env \<Rightarrow> ios_template list" where
  "logo_icons env = filter (\<lambda>a. kind a \<in> set logo_icon_kinds) (IosAssetTemplates env)"

text \<open>All calls a logo makes on \<^verbatim>\<open>sharp\<close> when none is rejected, in their order.\<close>

definition logo_calls :: "env \<Rightarrow> input_asset \<Rightarrow> handle \<Rightarrow> string \<Rightarrow> sharp_call list" where
  "logo_calls env asset pipe dir =
     map (icon_call env pipe dir) (logo_icons env) @
     (if asset_kind asset = Logo
      then splash_calls env asset dir (IOS_2X_UNIVERSAL_ANYANY_SPLASH env) (light_background env)
      else []) @
     splash_calls env asset dir (IOS_2X_UNIVERSAL_ANYANY_SPLASH_DARK env) (dark_background env)"


text \<open>A call on \<^verbatim>\<open>sharp\<close> that is made on the handle \<^verbatim>\<open>asset.pipeline()\<close> returned.\<close>

fun through_pipeline :: "input_asset \<Rightarrow> sharp_call \<Rightarrow> bool" where
  "through_pipeline asset (ResizePngToFile h w ht dest) = (pipeline asset = Some h)"
| "through_pipeline asset (Create c) = False"
| "through_pipeline asset (OpenResizeToBuffer p w) = False"
| "through_pipeline asset (CompositePngToFile c b dest) = False"

text \<open>
  A call of a splash composition: the canvas, the source opened anew from
  \<^verbatim>\<open>asset.path\<close> and resized to the target width, or the composite of that buffer.
\<close>

fun splash_composition_call :: "env \<Rightarrow> input_asset \<Rightarrow> sharp_call \<Rightarrow> bool" where
  "splash_composition_call env asset (Create c) = True"
| "splash_composition_call env asset (OpenResizeToBuffer p w) =
     (p = asset_path asset \<and> w = targetWidth env asset)"
| "splash_composition_call env asset (CompositePngToFile c b dest) =
     (b = Resized (asset_path asset) (targetWidth env asset))"
| "splash_composition_call env asset (ResizePngToFile h w ht dest) = False"

text \<open>
  The events a run of \<^verbatim>\<open>generate\<close> for an asset can add: calls on the asset's handle,
  for a logo also the calls of a splash composition, and reads and writes of files.
\<close>

fun derivation :: "env \<Rightarrow> input_asset \<Rightarrow> effect \<Rightarrow> bool" where
  "derivation env asset (Sharp c) =
     (through_pipeline asset c \<or>
      ((asset_kind asset = Logo \<or> asset_kind asset = LogoDark) \<and> splash_composition_call env asset c))"
| "derivation env asset (ReadFile p) = True"
| "derivation env asset (WriteFile p v) = True"

text \<open>An event other than a \<^verbatim>\<open>writeFile\<close>.\<close>

fun no_write :: "effect \<Rightarrow> bool" where
  "no_write (WriteFile p v) = False"
| "no_write (ReadFile p) = True"
| "no_write (Sharp c) = True"

subsection \<open>A concrete project\<close>

text \<open>
  \<^verbatim>\<open>path.join\<close> on segments that need no normalising: they are put together with
  a slash between them.
\<close>

fun posix_join :: "string list \<Rightarrow> string" where
  "posix_join [] = ''.''"
| "posix_join [s] = s"
| "posix_join (s # t # rest) = s @ ''/'' @ posix_join (t # rest)"

definition example_splash :: ios_template where
  "example_splash = \<lparr>kind = Splash, name = ''splash-2x.png'', width = Some 2732, height = Some 2732, scale = Some 2\<rparr>"

definition example_splash_dark :: ios_template where
  "example_splash_dark =
     \<lparr>kind = SplashDark, name = ''splash-2x-dark.png'', width = Some 2732, height = Some 2732, scale = Some 2\<rparr>"

definition example_icon :: ios_template where
  "example_icon = \<lparr>kind = Icon, name = ''icon-20.png'', width = Some 20, height = Some 20, scale = None\<rparr>"

definition example_notification_icon :: ios_template where
  "example_notification_icon =
     \<lparr>kind = NotificationIcon, name = ''notify-40.png'', width = Some 40, height = Some 40, scale = Some 2\<rparr>"

definition example_env :: env where
  "example_env =
     \<lparr>options = \<lparr>logoSplashScale = None, splashBackgroundColor = None, splashBackgroundColorDark = None\<rparr>,
      IosAssetTemplates = [example_icon, example_notification_icon, example_splash, example_splash_dark],
      IOS_2X_UNIVERSAL_ANYANY_SPLASH = example_splash,
      IOS_2X_UNIVERSAL_ANYANY_SPLASH_DARK = example_splash_dark,
      join = posix_join,
      number_times = (\<lambda>a b. a * b),
      sharp_ok = (\<lambda>c. True),
      sharp_info = (\<lambda>c. \<lparr>info_size = 1, info_width = 1, info_height = 1\<rparr>)\<rparr>"

definition example_project :: project where
  "example_project = \<lparr>config_ios = Some \<lparr>path = Some ''ios''\<rparr>\<rparr>"

definition placeholder_entry :: json where
  "placeholder_entry = JObj [(''idiom'', JStr ''universal''), (''scale'', JStr ''3x'')]"

definition empty_name_entry :: json where
  "empty_name_entry = JObj [(''idiom'', JStr ''universal''), (''filename'', JStr ''''), (''scale'', JStr ''2x'')]"

definition light_entry :: json where
  "light_entry = JObj [(''idiom'', JStr ''universal''), (''filename'', JStr ''splash-2x.png''), (''scale'', JStr ''2x'')]"

definition example_info :: json where
  "example_info = JObj [(''version'', JNum 1), (''author'', JStr ''xcode'')]"

definition example_manifest :: json where
  "example_manifest =
     JObj [(''images'', JArr [empty_name_entry, light_entry, placeholder_entry]), (''info'', example_info)]"

definition example_manifest_path :: string where
  "example_manifest_path = ''ios/App/Assets.xcassets/Splash.imageset/Contents.json''"

definition example_world :: world where
  "example_world = \<lparr>files = [example_manifest_path \<mapsto> Json example_manifest], trace = []\<rparr>"

definition example_asset :: "AssetKind \<Rightarrow> handle option \<Rightarrow> input_asset" where
  "example_asset k h =
     \<lparr>asset_path = ''assets/logo.png'', asset_kind = k, asset_width = Some 1000,
      asset_height = Some 1000, pipeline = h\<rparr>"

definition example_output :: output_asset where
  "example_output =
     OutputAsset example_splash_dark (example_asset SplashDark (Some 7)) example_project
       ''splash-2x-dark.png'' ''ios/App/Assets.xcassets/Splash.imageset/splash-2x-dark.png''
       \<lparr>info_size = 1, info_width = 1, info_height = 1\<rparr>"

section \<open>Properties\<close>

subsection \<open>Running the state transformers\<close>

lemma bind_lift_Inr [simp]: "bind (lift (Inr x)) f w = f x w"
  by (simp add: bind_def lift_def)

lemma bind_lift_Inl [simp]: "bind (lift (Inl e)) f w = (Inl e, w)"
  by (simp add: bind_def lift_def)

lemma bind_ret [simp]: "bind (ret x) f w = f x w"
  by (simp add: bind_def ret_def)

lemma bind_throw [simp]: "bind (throw e) f w = (Inl e, w)"
  by (simp add: bind_def throw_def)

lemma bind_Inr: "m w = (Inr x, w1) \<Longrightarrow> bind m f w = f x w1"
  by (simp add: bind_def)

lemma bind_Inl: "m w = (Inl e, w1) \<Longrightarrow> bind m f w = (Inl e, w1)"
  by (simp add: bind_def)

subsection \<open>The manifest merger\<close>

lemma has_filename_simps [simp]:
  "has_filename JNull = False"
  "has_filename (JBool b) = False"
  "has_filename (JNum n) = False"
  "has_filename (JStr s) = False"
  "has_filename (JArr xs) = False"
  "has_filename (JObj kvs) = truthy (map_of kvs ''filename'')"
  by (simp_all add: has_filename_def)

lemma filter_filename_ok: "JNull \<notin> set imgs \<Longrightarrow> filter_filename imgs = Inr (filter has_filename imgs)"
proof (induction imgs)
  case Nil
  show ?case by simp
next
  case (Cons i rest)
  then have "i \<noteq> JNull" and IH: "filter_filename rest = Inr (filter has_filename rest)" by auto
  then show ?case by (cases i) simp_all
qed

lemma map_of_set_prop: "map_of (set_prop kvs k v) = (map_of kvs)(k \<mapsto> v)"
  by (induction kvs k v rule: set_prop.induct) (auto simp: fun_eq_iff)


lemma merge_dark_ok:
  "map_of kvs ''images'' = Some (JArr imgs) \<Longrightarrow> JNull \<notin> set imgs \<Longrightarrow>
   merge_dark t (JObj kvs) =
     Inr (JObj (set_prop kvs ''images'' (JArr (filter has_filename imgs @ [dark_entry t]))))"
  by (simp add: merge_dark_def filter_filename_ok)


lemma update_ok:
  assumes "config_ios proj = Some cfg" "path cfg = Some dir"
    and "files w (manifest_path env dir) = Some (Json parsed)"
    and "merge_dark (template generated) parsed = Inr merged"
  shows "updateContentsJsonDark env generated proj w =
           (Inr (), w\<lparr>trace := trace w @ [ReadFile (manifest_path env dir), WriteFile (manifest_path env dir) merged],
                      files := (files w)(manifest_path env dir \<mapsto> Json merged)\<rparr>)"
  using assms
  by (simp add: updateContentsJsonDark_def ios_path_def join3_def readFile_def bind_def lift_def
      JSON_parse_def writeFile_def record_effect_def manifest_path_def)


lemma valid_entry_iff:
  "valid_entry i \<longleftrightarrow> (\<exists>kvs s. i = JObj kvs \<and> map_of kvs ''filename'' = Some (JStr s) \<and> s \<noteq> [])"
proof (cases i)
  case (JObj kvs)
  show ?thesis
  proof (cases "map_of kvs ''filename''")
    case None
    with JObj show ?thesis by (simp add: valid_entry_def)
  next
    case (Some v)
    with JObj show ?thesis by (cases v) (simp_all add: valid_entry_def)
  qed
qed (simp_all add: valid_entry_def)

lemma malformed_entry_iff:
  "malformed_entry i \<longleftrightarrow>
     (\<exists>kvs. i = JObj kvs \<and> (map_of kvs ''filename'' = None \<or> map_of kvs ''filename'' = Some (JStr [])))"
proof (cases i)
  case (JObj kvs)
  show ?thesis
  proof (cases "map_of kvs ''filename''")
    case None
    with JObj show ?thesis by (simp add: malformed_entry_def)
  next
    case (Some v)
    with JObj show ?thesis by (cases v) (simp_all add: malformed_entry_def)
  qed
qed (simp_all add: malformed_entry_def)



lemma malformed_not_valid: "malformed_entry i \<Longrightarrow> \<not> valid_entry i"
  by (auto simp: malformed_entry_iff valid_entry_iff)



lemma manifest_images_upd:
  "manifest_images (w\<lparr>trace := tr, files := (files w)(p \<mapsto> Json (JObj (set_prop kvs ''images'' (JArr xs))))\<rparr>) p = Some xs"
  by (simp add: manifest_images_def map_of_set_prop)



lemma has_filename_dark_entry: "has_filename (dark_entry t) \<longleftrightarrow> name t \<noteq> []"
  by (simp add: dark_entry_def)

lemma dark_entry_not_null: "JNull \<noteq> dark_entry t"
  by (simp add: dark_entry_def)

lemma update_twice:
  assumes "config_ios proj = Some cfg" and "path cfg = Some dir"
    and "files w (manifest_path env dir) = Some (Json (JObj kvs))"
    and "map_of kvs ''images'' = Some (JArr imgs)"
    and "JNull \<notin> set imgs"
    and "name (template generated) \<noteq> []"
  shows "bind (updateContentsJsonDark env generated proj) (\<lambda>first. updateContentsJsonDark env generated proj) w =
           (Inr (),
            w\<lparr>trace := trace w @
                 [ReadFile (manifest_path env dir),
                  WriteFile (manifest_path env dir)
                    (JObj (set_prop kvs ''images'' (JArr (filter has_filename imgs @ [dark_entry (template generated)])))),
                  ReadFile (manifest_path env dir),
                  WriteFile (manifest_path env dir)
                    (JObj (set_prop kvs ''images''
                       (JArr (filter has_filename imgs @ [dark_entry (template generated), dark_entry (template generated)]))))],
               files := (files w)(manifest_path env dir \<mapsto>
                  Json (JObj (set_prop kvs ''images''
                       (JArr (filter has_filename imgs @ [dark_entry (template generated), dark_entry (template generated)])))))\<rparr>)"
proof -
  let ?t = "template generated"
  let ?p = "manifest_path env dir"
  let ?once = "filter has_filename imgs @ [dark_entry ?t]"
  let ?kvs1 = "set_prop kvs ''images'' (JArr ?once)"
  let ?w1 = "w\<lparr>trace := trace w @ [ReadFile ?p, WriteFile ?p (JObj ?kvs1)],
               files := (files w)(?p \<mapsto> Json (JObj ?kvs1))\<rparr>"
  have m1: "merge_dark ?t (JObj kvs) = Inr (JObj ?kvs1)"
    using assms(4,5) by (rule merge_dark_ok)
  have first: "updateContentsJsonDark env generated proj w = (Inr (), ?w1)"
    using assms(1,2,3) m1 by (rule update_ok)
  have f1: "files ?w1 ?p = Some (Json (JObj ?kvs1))" by simp
  have i1: "map_of ?kvs1 ''images'' = Some (JArr ?once)" by (simp add: map_of_set_prop)
  have n1: "JNull \<notin> set ?once" using assms(5) by (simp add: dark_entry_not_null)
  have again: "filter has_filename ?once = ?once"
    using assms(6) by (simp add: has_filename_dark_entry)
  have sp: "set_prop ?kvs1 ''images'' v = set_prop kvs ''images'' v" for v
    using assms(4) by (induction kvs) auto
  have m2: "merge_dark ?t (JObj ?kvs1) =
              Inr (JObj (set_prop kvs ''images'' (JArr (filter has_filename imgs @ [dark_entry ?t, dark_entry ?t]))))"
    using merge_dark_ok [OF i1 n1, of ?t] by (simp only: again sp append_assoc append_Cons append_Nil)
  have second: "updateContentsJsonDark env generated proj ?w1 =
      (Inr (), ?w1\<lparr>trace := trace ?w1 @ [ReadFile ?p, WriteFile ?p (JObj (set_prop kvs ''images'' (JArr (filter has_filename imgs @ [dark_entry ?t, dark_entry ?t]))))],
                      files := (files ?w1)(?p \<mapsto> Json (JObj (set_prop kvs ''images'' (JArr (filter has_filename imgs @ [dark_entry ?t, dark_entry ?t])))))\<rparr>)"
    using assms(1,2) f1 m2 by (rule update_ok)
  show ?thesis
    by (simp add: bind_def first second)
qed


text \<open>
  C5. Registration is not idempotent: when the manifest parses, its \<^verbatim>\<open>images\<close> list
  has no \<^verbatim>\<open>null\<close> element and the template's name is not empty, running
  \<^verbatim>\<open>updateContentsJsonDark\<close> twice for the same output succeeds and leaves the kept
  entries followed by two copies of the same dark entry, both with the template's name
  as filename.
\<close>

theorem registerDarkVariant_twice:
  assumes "config_ios proj = Some cfg" and "path cfg = Some dir"
    and "files w (manifest_path env dir) = Some (Json (JObj kvs))"
    and "map_of kvs ''images'' = Some (JArr imgs)"
    and "JNull \<notin> set imgs"
    and "name (template generated) \<noteq> []"
  shows "fst (bind (updateContentsJsonDark env generated proj)
                (\<lambda>first. updateContentsJsonDark env generated proj) w) = Inr () \<and>
         manifest_images
           (snd (bind (updateContentsJsonDark env generated proj)
                   (\<lambda>first. updateContentsJsonDark env generated proj) w))
           (manifest_path env dir) =
           Some (filter has_filename imgs @ [dark_entry (template generated), dark_entry (template generated)]) \<and>
         get_prop (dark_entry (template generated)) ''filename'' = Inr (Some (JStr (name (template generated))))"
  unfolding update_twice [OF assms]
  by (simp add: manifest_images_upd) (simp add: dark_entry_def)

theorem registerDarkVariant_twice_witness:
  "name (template example_output) \<noteq> [] \<and>
   manifest_images
     (snd (bind (updateContentsJsonDark example_env example_output example_project)
             (\<lambda>first. updateContentsJsonDark example_env example_output example_project) example_world))
     example_manifest_path =
     Some [light_entry, dark_entry example_splash_dark, dark_entry example_splash_dark] \<and>
   get_prop (dark_entry example_splash_dark) ''filename'' = Inr (Some (JStr ''splash-2x-dark.png''))"
proof -
  have p: "manifest_path example_env ''ios'' = example_manifest_path"
    by (simp add: manifest_path_def example_env_def example_manifest_path_def IOS_SPLASH_IMAGE_SET_PATH_def
        IOS_SPLASH_IMAGE_SET_NAME_def)
  have f: "files example_world (manifest_path example_env ''ios'') =
             Some (Json (JObj [(''images'', JArr [empty_name_entry, light_entry, placeholder_entry]),
                                (''info'', example_info)]))"
    by (simp add: p example_world_def example_manifest_def)
  have n: "JNull \<notin> set [empty_name_entry, light_entry, placeholder_entry]"
    by (simp add: empty_name_entry_def light_entry_def placeholder_entry_def)
  have t: "template example_output = example_splash_dark"
    by (simp add: example_output_def OutputAsset_def)
  have k: "filter has_filename [empty_name_entry, light_entry, placeholder_entry] = [light_entry]"
    by (simp add: empty_name_entry_def light_entry_def placeholder_entry_def)
  have c: "config_ios example_project = Some \<lparr>path = Some ''ios''\<rparr>" "path \<lparr>path = Some ''ios''\<rparr> = Some ''ios''"
    by (simp_all add: example_project_def)
  have i: "map_of [(''images'', JArr [empty_name_entry, light_entry, placeholder_entry]), (''info'', example_info)]
             ''images'' = Some (JArr [empty_name_entry, light_entry, placeholder_entry])"
    by simp
  have nm: "name (template example_output) \<noteq> []"
    by (simp add: t example_splash_dark_def)
  note r = registerDarkVariant_twice [OF c f i n nm, unfolded p t k]
  show ?thesis
    using r nm by (simp add: example_splash_dark_def)
qed




subsection \<open>The dispatch\<close>

text \<open>
  C6. When the project has a non-empty iOS path and the asset's kind is none of the
  eight kinds the \<^verbatim>\<open>switch\<close> names, \<^verbatim>\<open>generate\<close> returns the empty list, raises
  nothing and leaves the state as it was.
\<close>

theorem generate_unhandled_kind:
  assumes "config_ios proj = Some cfg" and "path cfg = Some dir" and "dir \<noteq> []"
    and "asset_kind asset \<notin> {Logo, LogoDark, Icon, NotificationIcon, SettingsIcon, SpotlightIcon, Splash, SplashDark}"
  shows "generate env asset proj w = (Inr [], w)"
  using assms by (simp add: generate_def ret_def)

theorem generate_unhandled_kind_witness:
  "generate example_env (example_asset (OtherKind ''adaptive-icon'') None) example_project example_world =
     (Inr [], example_world)"
  using generate_unhandled_kind [of example_project "\<lparr>path = Some ''ios''\<rparr>" "''ios''"
      "example_asset (OtherKind ''adaptive-icon'') None" example_env example_world]
  by (simp add: example_project_def example_asset_def)

text \<open>
  C8. When \<^verbatim>\<open>pipeline()\<close> returns nothing, each of \<^verbatim>\<open>generateFromLogo\<close>,
  \<^verbatim>\<open>_generateIcons\<close> and \<^verbatim>\<open>generateSplashes\<close> fails with \<^verbatim>\<open>BadPipelineError\<close>
  in the state it started in: no file was written and no call was made on the platform.
  So for every handled kind \<^verbatim>\<open>generate\<close> fails without writing anything, with
  \<^verbatim>\<open>BadPipelineError\<close> once its own guard on the project's iOS path has passed (with
  \<^verbatim>\<open>BadProjectError\<close> of that guard otherwise).
\<close>

theorem generate_without_pipeline:
  assumes "pipeline asset = None"
  shows "generateFromLogo env asset proj w = (Inl (BadPipelineError ''Sharp instance not created''), w) \<and>
         private_generateIcons env asset proj icons w = (Inl (BadPipelineError ''Sharp instance not created''), w) \<and>
         generateSplashes env asset proj w = (Inl (BadPipelineError ''Sharp instance not created''), w) \<and>
         (asset_kind asset \<in> {Logo, LogoDark, Icon, NotificationIcon, SettingsIcon, SpotlightIcon, Splash, SplashDark} \<longrightarrow>
            snd (generate env asset proj w) = w \<and>
            fst (generate env asset proj w) =
              Inl (if (case config_ios proj of None \<Rightarrow> None | Some c \<Rightarrow> path c) = None \<or>
                      (case config_ios proj of None \<Rightarrow> None | Some c \<Rightarrow> path c) = Some []
                   then BadProjectError ''No ios project found''
                   else BadPipelineError ''Sharp instance not created''))"
proof -
  have a: "generateFromLogo env asset proj w = (Inl (BadPipelineError ''Sharp instance not created''), w)"
    using assms by (simp add: generateFromLogo_def throw_def)
  have b: "private_generateIcons env asset proj xs w = (Inl (BadPipelineError ''Sharp instance not created''), w)" for xs
    using assms by (simp add: private_generateIcons_def throw_def)
  have c: "generateSplashes env asset proj w = (Inl (BadPipelineError ''Sharp instance not created''), w)"
    using assms by (simp add: generateSplashes_def throw_def)
  show ?thesis
    unfolding a b c
    by (auto simp: generate_def a b c generateIcons_def generateNotificationIcons_def
        generateSettingsIcons_def generateSpotlightIcons_def Let_def throw_def)
qed

theorem generate_without_pipeline_witness:
  "generate example_env (example_asset Logo None) example_project example_world =
     (Inl (BadPipelineError ''Sharp instance not created''), example_world) \<and>
   generate example_env (example_asset SplashDark None) example_project example_world =
     (Inl (BadPipelineError ''Sharp instance not created''), example_world) \<and>
   generate example_env (example_asset Icon None) \<lparr>config_ios = None\<rparr> example_world =
     (Inl (BadProjectError ''No ios project found''), example_world)"
proof -
  have p: "pipeline (example_asset k None) = None" "asset_kind (example_asset k None) = k" for k
    by (simp_all add: example_asset_def)
  have e: "x = (fst x, snd x)" for x :: "(error + output_asset list) \<times> world"
    by simp
  show ?thesis
    using generate_without_pipeline [OF p(1), of example_env Logo example_project example_world]
      generate_without_pipeline [OF p(1), of example_env SplashDark example_project example_world]
      generate_without_pipeline [OF p(1), of example_env Icon "\<lparr>config_ios = None\<rparr>" example_world]
    by (auto simp: p(2) example_project_def prod_eq_iff)
qed

subsection \<open>What a run adds to the trace\<close>

lemma emits_ret [intro!]: "emits P (ret x)"
  by (simp add: emits_def ret_def)

lemma emits_throw [intro!]: "emits P (throw e)"
  by (simp add: emits_def throw_def)

lemma emits_lift [intro!]: "emits P (lift r)"
  by (simp add: emits_def lift_def)

lemma emits_bind [intro!]:
  assumes "emits P m" and "\<And>x. emits P (f x)"
  shows "emits P (bind m f)"
  unfolding emits_def
proof
  fix w
  obtain r w1 where m: "m w = (r, w1)" by (cases "m w")
  from assms(1) obtain n1 where n1: "trace w1 = trace w @ n1" "list_all P n1"
    unfolding emits_def using m by (metis snd_conv)
  show "\<exists>new. trace (snd (bind m f w)) = trace w @ new \<and> list_all P new"
  proof (cases r)
    case (Inl e)
    then show ?thesis using m n1 by (simp add: bind_def)
  next
    case (Inr x)
    from assms(2) [of x] obtain n2 where n2: "trace (snd (f x w1)) = trace w1 @ n2" "list_all P n2"
      unfolding emits_def by blast
    have "trace (snd (bind m f w)) = trace w @ (n1 @ n2)"
      using Inr m n1 n2 by (simp add: bind_def)
    moreover have "list_all P (n1 @ n2)" using n1 n2 by simp
    ultimately show ?thesis by blast
  qed
qed

lemma emits_sharp: "P (Sharp c) \<Longrightarrow> emits P (sharp env c)"
  by (auto simp: emits_def sharp_def Let_def record_effect_def split: option.splits)

lemma emits_readFile: "P (ReadFile p) \<Longrightarrow> emits P (readFile p)"
  by (auto simp: emits_def readFile_def Let_def record_effect_def split: option.splits)

lemma emits_writeFile: "P (WriteFile p v) \<Longrightarrow> emits P (writeFile p v)"
  by (auto simp: emits_def writeFile_def record_effect_def)

lemma emits_promise_all: "(\<And>m. m \<in> set ms \<Longrightarrow> emits P m) \<Longrightarrow> emits P (promise_all ms)"
proof (induction ms)
  case Nil
  show ?case by (simp add: emits_def)
next
  case (Cons m ms)
  have hd: "emits P m" using Cons.prems by simp
  have tl: "emits P (promise_all ms)" using Cons by simp
  show ?case
    unfolding emits_def
  proof
    fix w
    obtain r w1 where m: "m w = (r, w1)" by (cases "m w")
    obtain rs w2 where ms: "promise_all ms w1 = (rs, w2)" by (cases "promise_all ms w1")
    from hd m obtain n1 where n1: "trace w1 = trace w @ n1" "list_all P n1"
      unfolding emits_def by (metis snd_conv)
    from tl ms obtain n2 where n2: "trace w2 = trace w1 @ n2" "list_all P n2"
      unfolding emits_def by (metis snd_conv)
    have "trace (snd (promise_all (m # ms) w)) = trace w @ (n1 @ n2)"
      using m ms n1 n2 by simp
    moreover have "list_all P (n1 @ n2)" using n1 n2 by simp
    ultimately show "\<exists>new. trace (snd (promise_all (m # ms) w)) = trace w @ new \<and> list_all P new"
      by blast
  qed
qed

lemma emits_new_events: "emits P m \<Longrightarrow> e \<in> set (new_events w (snd (m w))) \<Longrightarrow> P e"
  unfolding emits_def new_events_def
proof -
  assume a: "\<forall>w. \<exists>new. trace (snd (m w)) = trace w @ new \<and> list_all P new"
    and e: "e \<in> set (drop (length (trace w)) (trace (snd (m w))))"
  from a obtain new where "trace (snd (m w)) = trace w @ new" "list_all P new" by blast
  with e show "P e" by (simp add: list_all_iff)
qed

lemma emits_update:
  assumes "\<And>p. P (ReadFile p)" and "\<And>p v. P (WriteFile p v)"
  shows "emits P (updateContentsJsonDark env generated proj)"
  unfolding updateContentsJsonDark_def
  by (intro emits_bind emits_lift emits_readFile emits_writeFile assms)

lemma emits_generate_icon:
  assumes "\<And>w ht dest. P (Sharp (ResizePngToFile pipe w ht dest))"
  shows "emits P (generate_icon env asset proj pipe iosDir icon)"
  unfolding generate_icon_def
  by (intro emits_bind emits_lift emits_sharp emits_ret assms)

lemma emits_private_generateIcons:
  assumes "\<And>pipe w ht dest. pipeline asset = Some pipe \<Longrightarrow> P (Sharp (ResizePngToFile pipe w ht dest))"
  shows "emits P (private_generateIcons env asset proj icons)"
proof (cases "pipeline asset")
  case None
  then show ?thesis by (simp add: private_generateIcons_def emits_throw)
next
  case (Some pipe)
  have "emits P (promise_all (map (generate_icon env asset proj pipe iosDir) icons))" for iosDir
    by (rule emits_promise_all) (auto intro: emits_generate_icon assms [OF Some])
  then show ?thesis
    using Some by (simp add: private_generateIcons_def emits_bind emits_lift)
qed


subsection \<open>Runs in which no call is rejected\<close>

lemma sharp_performed: "sharp_ok env c \<Longrightarrow> sharp env c w = (Inr (sharp_info env c), performed c w)"
  by (simp add: sharp_def performed_def Let_def record_effect_def split: option.splits)

lemma trace_performed: "trace (performed c w) = trace w @ [Sharp c]"
  by (simp add: performed_def record_effect_def split: option.splits)

lemma files_performed: "written_file c \<noteq> Some p \<Longrightarrow> files (performed c w) p = files w p"
  by (auto simp: performed_def record_effect_def split: option.splits)

lemma trace_fold_performed: "trace (fold performed cs w) = trace w @ map Sharp cs"
  by (induction cs arbitrary: w) (simp_all add: trace_performed)

lemma files_fold_performed:
  "\<forall>c\<in>set cs. written_file c \<noteq> Some p \<Longrightarrow> files (fold performed cs w) p = files w p"
  by (induction cs arbitrary: w) (simp_all add: files_performed)

lemma promise_all_icons:
  assumes "\<forall>c. sharp_ok env c"
  shows "promise_all (map (generate_icon env asset proj pipe (Some dir)) icons) w =
           (Inr (map (icon_output env asset proj pipe dir) icons),
            fold performed (map (icon_call env pipe dir) icons) w)"
proof (induction icons arbitrary: w)
  case Nil
  show ?case by simp
next
  case (Cons icon icons)
  have one: "generate_icon env asset proj pipe (Some dir) icon w =
               (Inr (icon_output env asset proj pipe dir icon), performed (icon_call env pipe dir icon) w)"
    using assms
    by (simp add: generate_icon_def join3_def icon_call_def icon_output_def bind_def lift_def sharp_performed ret_def)
  show ?case by (simp add: one Cons.IH)
qed

lemma private_generateIcons_ok:
  assumes "pipeline asset = Some pipe" and "config_ios proj = Some cfg" and "path cfg = Some dir"
    and "\<forall>c. sharp_ok env c"
  shows "private_generateIcons env asset proj icons w =
           (Inr (map (icon_output env asset proj pipe dir) icons),
            fold performed (map (icon_call env pipe dir) icons) w)"
  using assms(1,2,3)
  by (simp add: private_generateIcons_def ios_path_def promise_all_icons [OF assms(4)])

lemma composite_splash_ok:
  assumes "\<forall>c. sharp_ok env c"
  shows "composite_splash env asset proj (Some dir) (targetWidth env asset) t bg w =
           (Inr (splash_output env asset proj dir t bg), fold performed (splash_calls env asset dir t bg) w)"
  using assms
  by (simp add: composite_splash_def join3_def Let_def bind_def lift_def sharp_performed ret_def splash_output_def
      splash_calls_def composite_call_def splash_canvas_def splash_dest_def)

lemma logo_icons_filter:
  "filter (\<lambda>a. find (\<lambda>i. i = kind a) logo_icon_kinds \<noteq> None) xs = filter (\<lambda>a. kind a \<in> set logo_icon_kinds) xs"
  by (rule filter_cong) (auto simp: find_None_iff)

lemma generateFromLogo_ok:
  assumes "pipeline asset = Some pipe" and "config_ios proj = Some cfg" and "path cfg = Some dir"
    and "\<forall>c. sharp_ok env c"
    and "files w (manifest_path env dir) = Some (Json (JObj kvs))"
    and "map_of kvs ''images'' = Some (JArr imgs)" and "JNull \<notin> set imgs"
    and "\<forall>c\<in>set (logo_calls env asset pipe dir). written_file c \<noteq> Some (manifest_path env dir)"
    and "merged = JObj (set_prop kvs ''images''
            (JArr (filter has_filename imgs @ [dark_entry (IOS_2X_UNIVERSAL_ANYANY_SPLASH_DARK env)])))"
    and "w' = fold performed (logo_calls env asset pipe dir) w"
  shows "generateFromLogo env asset proj w =
           (Inr (map (icon_output env asset proj pipe dir) (logo_icons env) @
                 (if asset_kind asset = Logo
                  then [splash_output env asset proj dir (IOS_2X_UNIVERSAL_ANYANY_SPLASH env) (light_background env)]
                  else []) @
                 [splash_output env asset proj dir (IOS_2X_UNIVERSAL_ANYANY_SPLASH_DARK env) (dark_background env)]),
            w'\<lparr>trace := trace w' @ [ReadFile (manifest_path env dir), WriteFile (manifest_path env dir) merged],
                files := (files w')(manifest_path env dir \<mapsto> Json merged)\<rparr>)"
proof -
  let ?dark = "splash_output env asset proj dir (IOS_2X_UNIVERSAL_ANYANY_SPLASH_DARK env) (dark_background env)"
  have icons: "generateIconsForLogo env asset proj v =
                 (Inr (map (icon_output env asset proj pipe dir) (logo_icons env)),
                  fold performed (map (icon_call env pipe dir) (logo_icons env)) v)" for v
    unfolding generateIconsForLogo_def logo_icons_filter logo_icons_def [symmetric]
    by (rule private_generateIcons_ok [OF assms(1,2,3,4)])
  have light: "lightSplash env asset proj (Some dir) v =
                 (Inr (splash_output env asset proj dir (IOS_2X_UNIVERSAL_ANYANY_SPLASH env) (light_background env)),
                  fold performed (splash_calls env asset dir (IOS_2X_UNIVERSAL_ANYANY_SPLASH env) (light_background env)) v)" for v
    by (simp add: lightSplash_def light_background_def composite_splash_ok [OF assms(4)])
  have dark: "darkSplash env asset proj (Some dir) v =
                 (Inr ?dark,
                  fold performed (splash_calls env asset dir (IOS_2X_UNIVERSAL_ANYANY_SPLASH_DARK env) (dark_background env)) v)" for v
    by (simp add: darkSplash_def dark_background_def composite_splash_ok [OF assms(4)])
  have f: "files w' (manifest_path env dir) = Some (Json (JObj kvs))"
    using files_fold_performed [OF assms(8)] assms(5,10) by simp
  have m: "merge_dark (template ?dark) (JObj kvs) = Inr merged"
    using merge_dark_ok [OF assms(6,7)] assms(9) by (simp add: splash_output_def OutputAsset_def)
  have u: "updateContentsJsonDark env ?dark proj w' =
             (Inr (), w'\<lparr>trace := trace w' @ [ReadFile (manifest_path env dir), WriteFile (manifest_path env dir) merged],
                         files := (files w')(manifest_path env dir \<mapsto> Json merged)\<rparr>)"
    using assms(2,3) f m by (rule update_ok)
  show ?thesis
  proof (cases "asset_kind asset = Logo")
    case True
    then show ?thesis
      using assms(1,2,3) u
      by (simp add: generateFromLogo_def ios_path_def bind_def lift_def icons light dark ret_def assms(10)
          logo_calls_def)
  next
    case False
    then show ?thesis
      using assms(1,2,3) u
      by (simp add: generateFromLogo_def ios_path_def bind_def lift_def icons light dark ret_def assms(10)
          logo_calls_def)
  qed
qed

subsection \<open>What a run returns\<close>


lemma ret_eq [simp]: "ret x w = (r, w') \<longleftrightarrow> r = Inr x \<and> w' = w"
  by (auto simp: ret_def)

lemma throw_eq [simp]: "throw e w = (r, w') \<longleftrightarrow> r = Inl e \<and> w' = w"
  by (auto simp: throw_def)

lemma lift_eq [simp]: "lift r0 w = (r, w') \<longleftrightarrow> r = r0 \<and> w' = w"
  by (auto simp: lift_def)










subsection \<open>Which calls a run can make\<close>

lemma emits_composite_splash:
  assumes "\<And>c. P (Sharp (Create c))"
    and "P (Sharp (OpenResizeToBuffer (asset_path asset) tw))"
    and "\<And>c dest. P (Sharp (CompositePngToFile c (Resized (asset_path asset) tw) dest))"
  shows "emits P (composite_splash env asset proj iosDir tw t bg)"
  unfolding composite_splash_def Let_def
  by (intro emits_bind emits_lift emits_sharp emits_ret assms)

lemma emits_generateFromLogo:
  assumes "asset_kind asset = Logo \<or> asset_kind asset = LogoDark"
  shows "emits (derivation env asset) (generateFromLogo env asset proj)"
proof (cases "pipeline asset")
  case None
  then show ?thesis by (simp add: generateFromLogo_def emits_throw)
next
  case (Some pipe)
  have icons: "emits (derivation env asset) (generateIconsForLogo env asset proj)"
    unfolding generateIconsForLogo_def by (rule emits_private_generateIcons) simp
  have light: "emits (derivation env asset) (lightSplash env asset proj iosDir)" for iosDir
    unfolding lightSplash_def using assms by (intro emits_composite_splash) simp_all
  have dark: "emits (derivation env asset) (darkSplash env asset proj iosDir)" for iosDir
    unfolding darkSplash_def using assms by (intro emits_composite_splash) simp_all
  have upd: "emits (derivation env asset) (updateContentsJsonDark env out proj)" for out
    by (rule emits_update) simp_all
  have gen: "emits (derivation env asset)
               (if asset_kind asset = Logo
                then bind (lightSplash env asset proj iosDir) (\<lambda>lightSplashOutput. ret [lightSplashOutput])
                else ret [])" for iosDir
    by (simp add: emits_bind emits_ret light)
  show ?thesis
    using Some
    by (simp add: generateFromLogo_def) (intro emits_bind emits_lift emits_ret icons gen dark upd)
qed

lemma emits_icons:
  "emits (derivation env asset) (private_generateIcons env asset proj icons)"
  by (rule emits_private_generateIcons) simp

lemma emits_generateSplashes:
  "emits (derivation env asset) (generateSplashes env asset proj)"
proof (cases "pipeline asset")
  case None
  then show ?thesis by (simp add: generateSplashes_def emits_throw)
next
  case (Some pipe)
  have upd: "emits (derivation env asset) (updateContentsJsonDark env out proj)" for out
    by (rule emits_update) simp_all
  have reg: "emits (derivation env asset)
               (if asset_kind asset = SplashDark then updateContentsJsonDark env out proj else ret ())" for out
    by (simp add: upd emits_ret)
  show ?thesis
    using Some
    by (auto simp: generateSplashes_def Let_def intro!: emits_sharp reg)
qed

lemma emits_generate: "emits (derivation env asset) (generate env asset proj)"
  unfolding generate_def Let_def
  by (auto simp: emits_throw emits_ret emits_generateFromLogo emits_generateSplashes emits_icons
      generateIcons_def generateNotificationIcons_def generateSettingsIcons_def generateSpotlightIcons_def)

lemma emits_generateSplashes_no_write:
  assumes "asset_kind asset \<noteq> SplashDark"
  shows "emits no_write (generateSplashes env asset proj)"
proof (cases "pipeline asset")
  case None
  then show ?thesis by (simp add: generateSplashes_def emits_throw)
next
  case (Some pipe)
  show ?thesis
    using Some assms
    by (auto simp: generateSplashes_def Let_def intro!: emits_sharp)
qed

subsection \<open>Logos\<close>

lemma generate_logo_ok:
  assumes "asset_kind asset = Logo \<or> asset_kind asset = LogoDark"
    and "config_ios proj = Some cfg" and "path cfg = Some dir" and "dir \<noteq> []"
    and "pipeline asset = Some pipe"
    and "\<forall>c. sharp_ok env c"
    and "files w (manifest_path env dir) = Some (Json (JObj kvs))"
    and "map_of kvs ''images'' = Some (JArr imgs)" and "JNull \<notin> set imgs"
    and "\<forall>c\<in>set (logo_calls env asset pipe dir). written_file c \<noteq> Some (manifest_path env dir)"
    and "merged = JObj (set_prop kvs ''images''
            (JArr (filter has_filename imgs @ [dark_entry (IOS_2X_UNIVERSAL_ANYANY_SPLASH_DARK env)])))"
    and "w' = fold performed (logo_calls env asset pipe dir) w"
  shows "generate env asset proj w =
           (Inr (map (icon_output env asset proj pipe dir) (logo_icons env) @
                 (if asset_kind asset = Logo
                  then [splash_output env asset proj dir (IOS_2X_UNIVERSAL_ANYANY_SPLASH env) (light_background env)]
                  else []) @
                 [splash_output env asset proj dir (IOS_2X_UNIVERSAL_ANYANY_SPLASH_DARK env) (dark_background env)]),
            w'\<lparr>trace := trace w' @ [ReadFile (manifest_path env dir), WriteFile (manifest_path env dir) merged],
                files := (files w')(manifest_path env dir \<mapsto> Json merged)\<rparr>)"
proof -
  have "generate env asset proj w = generateFromLogo env asset proj w"
    using assms(1,2,3,4) by (auto simp: generate_def)
  then show ?thesis
    using generateFromLogo_ok [OF assms(5,2,3,6,7,8,9,10,11,12)] by simp
qed

text \<open>
  C2. For a Logo or LogoDark asset with a handle, in a project with a non-empty iOS path,
  when \<^verbatim>\<open>sharp\<close> rejects no call, no image is written over the manifest and the
  manifest parses to an object whose \<^verbatim>\<open>images\<close> is a list without \<^verbatim>\<open>null\<close>:
  \<^verbatim>\<open>generate\<close> returns the icon outputs, then the light splash output exactly when
  the kind is Logo, then the dark splash output; the calls it makes are those of the
  icons, of the light composition exactly when the kind is Logo, and of the dark
  composition, and only after them the manifest is read and written back with the dark
  entry of the dark splash template appended.
\<close>

theorem generate_logo_splashes:
  assumes "asset_kind asset = Logo \<or> asset_kind asset = LogoDark"
    and "config_ios proj = Some cfg" and "path cfg = Some dir" and "dir \<noteq> []"
    and "pipeline asset = Some pipe"
    and "\<forall>c. sharp_ok env c"
    and "files w (manifest_path env dir) = Some (Json (JObj kvs))"
    and "map_of kvs ''images'' = Some (JArr imgs)" and "JNull \<notin> set imgs"
    and "\<forall>c\<in>set (logo_calls env asset pipe dir). written_file c \<noteq> Some (manifest_path env dir)"
  shows "fst (generate env asset proj w) =
           Inr (map (icon_output env asset proj pipe dir) (logo_icons env) @
                (if asset_kind asset = Logo
                 then [splash_output env asset proj dir (IOS_2X_UNIVERSAL_ANYANY_SPLASH env) (light_background env)]
                 else []) @
                [splash_output env asset proj dir (IOS_2X_UNIVERSAL_ANYANY_SPLASH_DARK env) (dark_background env)]) \<and>
         trace (snd (generate env asset proj w)) =
           trace w @
           map Sharp
             (map (icon_call env pipe dir) (logo_icons env) @
              (if asset_kind asset = Logo
               then splash_calls env asset dir (IOS_2X_UNIVERSAL_ANYANY_SPLASH env) (light_background env)
               else []) @
              splash_calls env asset dir (IOS_2X_UNIVERSAL_ANYANY_SPLASH_DARK env) (dark_background env)) @
           [ReadFile (manifest_path env dir),
            WriteFile (manifest_path env dir)
              (JObj (set_prop kvs ''images''
                 (JArr (filter has_filename imgs @ [dark_entry (IOS_2X_UNIVERSAL_ANYANY_SPLASH_DARK env)]))))] \<and>
         manifest_images (snd (generate env asset proj w)) (manifest_path env dir) =
           Some (filter has_filename imgs @ [dark_entry (IOS_2X_UNIVERSAL_ANYANY_SPLASH_DARK env)])"
proof -
  note run = generate_logo_ok [OF assms refl refl]
  have t: "trace (fold performed (logo_calls env asset pipe dir) w) =
             trace w @ map Sharp (logo_calls env asset pipe dir)"
    by (rule trace_fold_performed)
  show ?thesis
    unfolding run by (simp add: t manifest_images_upd) (simp add: logo_calls_def)
qed

lemma template_icon_output: "template (icon_output env asset proj pipe dir icon) = icon"
  by (simp add: icon_output_def OutputAsset_def)

lemma template_splash_output: "template (splash_output env asset proj dir t bg) = t"
  by (simp add: splash_output_def OutputAsset_def)

lemma example_manifest_path_eq: "manifest_path example_env ''ios'' = example_manifest_path"
  by (simp add: manifest_path_def example_env_def example_manifest_path_def IOS_SPLASH_IMAGE_SET_PATH_def
      IOS_SPLASH_IMAGE_SET_NAME_def)

lemma example_config:
  "config_ios example_project = Some \<lparr>path = Some ''ios''\<rparr>" "path \<lparr>path = Some ''ios''\<rparr> = Some ''ios''"
  "''ios'' \<noteq> []"
  by (simp_all add: example_project_def)

lemma example_sharp_ok: "\<forall>c. sharp_ok example_env c"
  by (simp add: example_env_def)

lemma example_files:
  "files example_world (manifest_path example_env ''ios'') =
     Some (Json (JObj [(''images'', JArr [empty_name_entry, light_entry, placeholder_entry]), (''info'', example_info)]))"
  by (simp add: example_manifest_path_eq example_world_def example_manifest_def)

lemma example_images:
  "map_of [(''images'', JArr [empty_name_entry, light_entry, placeholder_entry]), (''info'', example_info)] ''images'' =
     Some (JArr [empty_name_entry, light_entry, placeholder_entry])"
  by simp

lemma example_no_null: "JNull \<notin> set [empty_name_entry, light_entry, placeholder_entry]"
  by (simp add: empty_name_entry_def light_entry_def placeholder_entry_def)

lemma example_kept: "filter has_filename [empty_name_entry, light_entry, placeholder_entry] = [light_entry]"
  by (simp add: empty_name_entry_def light_entry_def placeholder_entry_def)

lemma example_logo_icons: "logo_icons example_env = [example_icon, example_notification_icon]"
  by (simp add: logo_icons_def example_env_def logo_icon_kinds_def example_icon_def
      example_notification_icon_def example_splash_def example_splash_dark_def)

lemma example_targetWidth: "targetWidth example_env (example_asset k h) = 200"
  by (simp add: targetWidth_def example_env_def example_asset_def default_logoSplashScale_def floor_eq_iff)

lemma example_logo_calls:
  "logo_calls example_env (example_asset k (Some 7)) 7 ''ios'' =
     [ResizePngToFile 7 (Some 20) (Some 20) ''ios/App/Assets.xcassets/AppIcon.appiconset/icon-20.png'',
      ResizePngToFile 7 (Some 40) (Some 40) ''ios/App/Assets.xcassets/AppIcon.appiconset/notify-40.png''] @
     (if k = Logo
      then [Create \<lparr>create_width = 2732, create_height = 2732, channels = 4, background = ''#ffffff''\<rparr>,
            OpenResizeToBuffer ''assets/logo.png'' 200,
            CompositePngToFile \<lparr>create_width = 2732, create_height = 2732, channels = 4, background = ''#ffffff''\<rparr>
              (Resized ''assets/logo.png'' 200) ''ios/App/Assets.xcassets/Splash.imageset/splash-2x.png'']
      else []) @
     [Create \<lparr>create_width = 2732, create_height = 2732, channels = 4, background = ''#111111''\<rparr>,
      OpenResizeToBuffer ''assets/logo.png'' 200,
      CompositePngToFile \<lparr>create_width = 2732, create_height = 2732, channels = 4, background = ''#111111''\<rparr>
        (Resized ''assets/logo.png'' 200) ''ios/App/Assets.xcassets/Splash.imageset/splash-2x-dark.png'']"
  unfolding logo_calls_def example_logo_icons splash_calls_def composite_call_def example_targetWidth
  by (simp add: icon_call_def splash_canvas_def splash_dest_def light_background_def dark_background_def
      example_env_def example_asset_def example_icon_def example_notification_icon_def example_splash_def
      example_splash_dark_def IOS_APP_ICON_SET_PATH_def IOS_APP_ICON_SET_NAME_def
      IOS_SPLASH_IMAGE_SET_PATH_def IOS_SPLASH_IMAGE_SET_NAME_def)

lemma example_logo_frame:
  "\<forall>c\<in>set (logo_calls example_env (example_asset k (Some 7)) 7 ''ios'').
     written_file c \<noteq> Some (manifest_path example_env ''ios'')"
  unfolding example_logo_calls example_manifest_path_eq
  by (auto simp: example_manifest_path_def)


theorem generate_logo_splashes_witness:
  "map (\<lambda>out. name (template out))
     (case fst (generate example_env (example_asset Logo (Some 7)) example_project example_world) of
        Inr outs \<Rightarrow> outs | Inl e \<Rightarrow> []) =
     [''icon-20.png'', ''notify-40.png'', ''splash-2x.png'', ''splash-2x-dark.png''] \<and>
   map (\<lambda>out. name (template out))
     (case fst (generate example_env (example_asset LogoDark (Some 7)) example_project example_world) of
        Inr outs \<Rightarrow> outs | Inl e \<Rightarrow> []) =
     [''icon-20.png'', ''notify-40.png'', ''splash-2x-dark.png''] \<and>
   new_events example_world
     (snd (generate example_env (example_asset Logo (Some 7)) example_project example_world)) =
     map Sharp (logo_calls example_env (example_asset Logo (Some 7)) 7 ''ios'') @
     [ReadFile example_manifest_path,
      WriteFile example_manifest_path
        (JObj [(''images'', JArr [light_entry, dark_entry example_splash_dark]), (''info'', example_info)])] \<and>
   manifest_images
     (snd (generate example_env (example_asset Logo (Some 7)) example_project example_world))
     example_manifest_path = Some [light_entry, dark_entry example_splash_dark]"
proof -
  have k: "asset_kind (example_asset Logo (Some 7)) = Logo \<or> asset_kind (example_asset Logo (Some 7)) = LogoDark"
    "asset_kind (example_asset LogoDark (Some 7)) = Logo \<or> asset_kind (example_asset LogoDark (Some 7)) = LogoDark"
    and p: "pipeline (example_asset kd (Some 7)) = Some 7" for kd
    by (simp_all add: example_asset_def)
  note light = generate_logo_splashes [OF k(1) example_config p example_sharp_ok example_files example_images
      example_no_null example_logo_frame, unfolded example_kept example_manifest_path_eq example_logo_icons]
  note dark = generate_logo_splashes [OF k(2) example_config p example_sharp_ok example_files example_images
      example_no_null example_logo_frame, unfolded example_kept example_manifest_path_eq example_logo_icons]
  have d: "IOS_2X_UNIVERSAL_ANYANY_SPLASH_DARK example_env = example_splash_dark"
    "IOS_2X_UNIVERSAL_ANYANY_SPLASH example_env = example_splash"
    by (simp_all add: example_env_def)
  have t: "trace example_world = []" by (simp add: example_world_def)
  have a: "asset_kind (example_asset kd (Some 7)) = kd" for kd
    by (simp add: example_asset_def)
  have n: "name example_icon = ''icon-20.png''" "name example_notification_icon = ''notify-40.png''"
    "name example_splash = ''splash-2x.png''" "name example_splash_dark = ''splash-2x-dark.png''"
    by (simp_all add: example_icon_def example_notification_icon_def example_splash_def example_splash_dark_def)
  show ?thesis
    using light dark
    by (simp add: d t a n new_events_def logo_calls_def example_logo_icons template_icon_output
        template_splash_output)
qed

text \<open>
  C3, as it is stated, fails: for a logo whose handle exists, the run opens the source
  file from its path through a new instance, a call that is not made on the handle.
\<close>

theorem generate_logo_reopens_source:
  "pipeline (example_asset Logo (Some 7)) = Some 7 \<and>
   Sharp (OpenResizeToBuffer (asset_path (example_asset Logo (Some 7))) 200)
     \<in> set (new_events example_world
          (snd (generate example_env (example_asset Logo (Some 7)) example_project example_world))) \<and>
   \<not> through_pipeline (example_asset Logo (Some 7))
        (OpenResizeToBuffer (asset_path (example_asset Logo (Some 7))) 200)"
proof -
  have k: "asset_kind (example_asset Logo (Some 7)) = Logo \<or> asset_kind (example_asset Logo (Some 7)) = LogoDark"
    and p: "pipeline (example_asset Logo (Some 7)) = Some 7"
    by (simp_all add: example_asset_def)
  note run = generate_logo_ok [OF k example_config p example_sharp_ok example_files example_images
      example_no_null example_logo_frame refl refl]
  have t: "trace example_world = []" by (simp add: example_world_def)
  show ?thesis
    unfolding run
    by (simp add: p new_events_def trace_performed t example_logo_calls) (simp add: example_asset_def)
qed

text \<open>
  C3, amended. Every call \<^verbatim>\<open>generate\<close> makes on \<^verbatim>\<open>sharp\<close>, whether the run succeeds
  or fails, is made on the asset's own handle, or else the asset is a Logo or a LogoDark
  and the call belongs to a splash composition: the creation of the canvas, the opening
  of \<^verbatim>\<open>asset.path\<close> through a new instance resized to the target width, or the
  composite of that buffer.
\<close>

theorem generate_derivations:
  assumes "Sharp c \<in> set (new_events w (snd (generate env asset proj w)))"
  shows "through_pipeline asset c \<or>
         ((asset_kind asset = Logo \<or> asset_kind asset = LogoDark) \<and> splash_composition_call env asset c)"
  using emits_new_events [OF emits_generate assms] by simp

theorem generate_derivations_witness:
  "Sharp (ResizePngToFile 7 (Some 20) (Some 20) ''ios/App/Assets.xcassets/AppIcon.appiconset/icon-20.png'')
     \<in> set (new_events example_world
          (snd (generate example_env (example_asset Icon (Some 7)) example_project example_world))) \<and>
   through_pipeline (example_asset Icon (Some 7))
     (ResizePngToFile 7 (Some 20) (Some 20) ''ios/App/Assets.xcassets/AppIcon.appiconset/icon-20.png'')"
proof -
  have p: "pipeline (example_asset Icon (Some 7)) = Some 7"
    by (simp add: example_asset_def)
  have i: "filter (\<lambda>a. kind a = Icon) (IosAssetTemplates example_env) = [example_icon]"
    by (simp add: example_env_def example_icon_def example_notification_icon_def example_splash_def
        example_splash_dark_def)
  have "generate example_env (example_asset Icon (Some 7)) example_project example_world =
          generateIcons example_env (example_asset Icon (Some 7)) example_project example_world"
    by (simp add: generate_def example_project_def example_asset_def)
  also have "\<dots> = (Inr (map (icon_output example_env (example_asset Icon (Some 7)) example_project 7 ''ios'') [example_icon]),
                   fold performed (map (icon_call example_env 7 ''ios'') [example_icon]) example_world)"
    unfolding generateIcons_def i
    by (rule private_generateIcons_ok [OF p example_config(1,2) example_sharp_ok])
  finally have run: "generate example_env (example_asset Icon (Some 7)) example_project example_world =
      (Inr (map (icon_output example_env (example_asset Icon (Some 7)) example_project 7 ''ios'') [example_icon]),
       fold performed (map (icon_call example_env 7 ''ios'') [example_icon]) example_world)" .
  have c: "icon_call example_env 7 ''ios'' example_icon =
             ResizePngToFile 7 (Some 20) (Some 20) ''ios/App/Assets.xcassets/AppIcon.appiconset/icon-20.png''"
    by (simp add: icon_call_def example_env_def example_icon_def IOS_APP_ICON_SET_PATH_def IOS_APP_ICON_SET_NAME_def)
  have mem: "Sharp (ResizePngToFile 7 (Some 20) (Some 20) ''ios/App/Assets.xcassets/AppIcon.appiconset/icon-20.png'')
     \<in> set (new_events example_world
          (snd (generate example_env (example_asset Icon (Some 7)) example_project example_world)))"
    unfolding run by (simp add: new_events_def trace_performed c example_world_def)
  from generate_derivations [OF mem] mem show ?thesis
    by (simp add: example_asset_def)
qed


subsection \<open>Splashes and the target width\<close>

text \<open>
  C9. For a Splash asset with a handle, in a project with a non-empty iOS path, when
  \<^verbatim>\<open>sharp\<close> carries the one resize out: \<^verbatim>\<open>generate\<close> returns exactly one output,
  makes exactly one call, which writes the file at the image-set directory joined with
  the splash template's name, and leaves the file at every other path as it was: the
  manifest is neither read nor written. Within \<^verbatim>\<open>generateSplashes\<close> a file is written by \<^verbatim>\<open>writeFile\<close> only when
  the kind is SplashDark.
\<close>

theorem generate_splash:
  assumes "config_ios proj = Some cfg" and "path cfg = Some dir" and "dir \<noteq> []"
    and "asset_kind asset = Splash" and "pipeline asset = Some pipe"
    and "dest = join env [dir, IOS_SPLASH_IMAGE_SET_PATH, name (IOS_2X_UNIVERSAL_ANYANY_SPLASH env)]"
    and "call = ResizePngToFile pipe (width (IOS_2X_UNIVERSAL_ANYANY_SPLASH env))
                  (height (IOS_2X_UNIVERSAL_ANYANY_SPLASH env)) dest"
    and "sharp_ok env call"
  shows "generate env asset proj w =
           (Inr [OutputAsset (IOS_2X_UNIVERSAL_ANYANY_SPLASH env) asset proj
                   (name (IOS_2X_UNIVERSAL_ANYANY_SPLASH env)) dest (sharp_info env call)],
            w\<lparr>trace := trace w @ [Sharp call], files := (files w)(dest \<mapsto> Image call)\<rparr>) \<and>
         (\<forall>p. p \<noteq> dest \<longrightarrow> files (snd (generate env asset proj w)) p = files w p) \<and>
         (\<forall>a q v. WriteFile q v \<in> set (new_events w (snd (generateSplashes env a proj w))) \<longrightarrow>
                  asset_kind a = SplashDark)"
proof -
  have "generate env asset proj w = generateSplashes env asset proj w"
    using assms(1,2,3,4) by (simp add: generate_def)
  also have "\<dots> = (Inr [OutputAsset (IOS_2X_UNIVERSAL_ANYANY_SPLASH env) asset proj
                          (name (IOS_2X_UNIVERSAL_ANYANY_SPLASH env)) dest (sharp_info env call)],
                   w\<lparr>trace := trace w @ [Sharp call], files := (files w)(dest \<mapsto> Image call)\<rparr>)"
    using assms(1,2,4,5,8) unfolding assms(6,7)
    by (simp add: generateSplashes_def Let_def ios_path_def join3_def bind_def lift_def sharp_def
        record_effect_def ret_def)
  finally have run: "generate env asset proj w =
      (Inr [OutputAsset (IOS_2X_UNIVERSAL_ANYANY_SPLASH env) asset proj
              (name (IOS_2X_UNIVERSAL_ANYANY_SPLASH env)) dest (sharp_info env call)],
       w\<lparr>trace := trace w @ [Sharp call], files := (files w)(dest \<mapsto> Image call)\<rparr>)" .
  have only_dark: "asset_kind a = SplashDark"
    if "WriteFile q v \<in> set (new_events w (snd (generateSplashes env a proj w)))" for a q v
  proof (rule ccontr)
    assume "asset_kind a \<noteq> SplashDark"
    from emits_new_events [OF emits_generateSplashes_no_write [OF this] that]
    show False by simp
  qed
  show ?thesis
    unfolding run using only_dark by auto
qed

theorem generate_splash_witness:
  "generate example_env (example_asset Splash (Some 7)) example_project example_world =
     (Inr [OutputAsset example_splash (example_asset Splash (Some 7)) example_project ''splash-2x.png''
             ''ios/App/Assets.xcassets/Splash.imageset/splash-2x.png''
             \<lparr>info_size = 1, info_width = 1, info_height = 1\<rparr>],
      example_world
        \<lparr>trace := [Sharp (ResizePngToFile 7 (Some 2732) (Some 2732)
                             ''ios/App/Assets.xcassets/Splash.imageset/splash-2x.png'')],
         files := (files example_world)
           (''ios/App/Assets.xcassets/Splash.imageset/splash-2x.png'' \<mapsto>
              Image (ResizePngToFile 7 (Some 2732) (Some 2732)
                       ''ios/App/Assets.xcassets/Splash.imageset/splash-2x.png''))\<rparr>) \<and>
   files (snd (generate example_env (example_asset Splash (Some 7)) example_project example_world))
     example_manifest_path = Some (Json example_manifest)"
proof -
  have k: "asset_kind (example_asset Splash (Some 7)) = Splash"
    and p: "pipeline (example_asset Splash (Some 7)) = Some 7"
    by (simp_all add: example_asset_def)
  have ok: "sharp_ok example_env c" for c
    by (simp add: example_env_def)
  note r = generate_splash [OF example_config k p refl refl ok, of example_world]
  have d: "join example_env [''ios'', IOS_SPLASH_IMAGE_SET_PATH, ''splash-2x.png''] =
             ''ios/App/Assets.xcassets/Splash.imageset/splash-2x.png''"
    by (simp add: example_env_def IOS_SPLASH_IMAGE_SET_PATH_def IOS_SPLASH_IMAGE_SET_NAME_def)
  have s: "IOS_2X_UNIVERSAL_ANYANY_SPLASH example_env = example_splash"
    "sharp_info example_env c = \<lparr>info_size = 1, info_width = 1, info_height = 1\<rparr>" for c
    by (simp_all add: example_env_def)
  have e: "name example_splash = ''splash-2x.png''" "width example_splash = Some 2732"
    "height example_splash = Some 2732"
    by (simp_all add: example_splash_def)
  have t: "trace example_world = []"
    "files example_world ''ios/App/Assets.xcassets/Splash.imageset/Contents.json'' = Some (Json example_manifest)"
    by (simp_all add: example_world_def example_manifest_path_def)
  from r [unfolded d s e] show ?thesis
    by (simp add: t example_manifest_path_def)
qed



end
